theory Spec2Isabelle
  imports Main "HOL-Library.Finite_Map"
begin

section \<open>Conventions\<close>

text \<open>
  The theory embeds the cookie store of \<open>utils/cookie.ts\<close> and the two attribution
  engines built on it, \<open>utm.ts\<close> and \<open>index.ts\<close>, and states the properties C1 to C10
  of them.

  \<^item> A string is the list of its code units; the range covered is U+0000 to U+00FF, one
    \<^typ>\<open>char\<close> each. In that range \<open>encodeURIComponent\<close> never throws.
  \<^item> \<open>null\<close> and \<open>undefined\<close> are \<^const>\<open>None\<close>.
  \<^item> A \<open>number\<close> that counts days or milliseconds is an \<^typ>\<open>int\<close>.
  \<^item> A function that mutates module state, assigns \<open>document.cookie\<close> or logs takes the
    world and returns it updated; one that may throw returns \<open>error + result\<close>, with
    \<^const>\<open>Inl\<close> for the exception.
  \<^item> A \<open>Map\<close> or an object used as a dictionary is a finite map; the order of its entries
    is not kept.
  \<^item> \<open>value\<close> is a keyword of the prover: a parameter of that name is written \<open>val\<close> and
    the member \<open>value\<close> of \<open>StoredCookie\<close> is \<open>cookie_value\<close>. The functions of \<open>index.ts\<close>
    whose names \<open>utm.ts\<close> also uses carry the prefix \<open>index_\<close>.
\<close>

section \<open>The JavaScript built-ins the sources call\<close>

definition upperCaseLetters :: string where
  "upperCaseLetters = ''ABCDEFGHIJKLMNOPQRSTUVWXYZ'' @
     [CHR 0xC0, CHR 0xC1, CHR 0xC2, CHR 0xC3, CHR 0xC4, CHR 0xC5, CHR 0xC6, CHR 0xC7,
      CHR 0xC8, CHR 0xC9, CHR 0xCA, CHR 0xCB, CHR 0xCC, CHR 0xCD, CHR 0xCE, CHR 0xCF,
      CHR 0xD0, CHR 0xD1, CHR 0xD2, CHR 0xD3, CHR 0xD4, CHR 0xD5, CHR 0xD6,
      CHR 0xD8, CHR 0xD9, CHR 0xDA, CHR 0xDB, CHR 0xDC, CHR 0xDD, CHR 0xDE]"

definition lowerCaseLetters :: string where
  "lowerCaseLetters = ''abcdefghijklmnopqrstuvwxyz'' @
     [CHR 0xE0, CHR 0xE1, CHR 0xE2, CHR 0xE3, CHR 0xE4, CHR 0xE5, CHR 0xE6, CHR 0xE7,
      CHR 0xE8, CHR 0xE9, CHR 0xEA, CHR 0xEB, CHR 0xEC, CHR 0xED, CHR 0xEE, CHR 0xEF,
      CHR 0xF0, CHR 0xF1, CHR 0xF2, CHR 0xF3, CHR 0xF4, CHR 0xF5, CHR 0xF6,
      CHR 0xF8, CHR 0xF9, CHR 0xFA, CHR 0xFB, CHR 0xFC, CHR 0xFD, CHR 0xFE]"

text \<open>\<open>String.prototype.toLowerCase\<close>: each upper-case letter of the range is replaced
  by its lower-case letter, every other code unit is kept.\<close>

definition toLowerCase_char :: "char \<Rightarrow> char" where
  "toLowerCase_char c =
     (case map_of (zip upperCaseLetters lowerCaseLetters) c of None \<Rightarrow> c | Some l \<Rightarrow> l)"

definition toLowerCase :: "string \<Rightarrow> string" where
  "toLowerCase s = map toLowerCase_char s"

text \<open>\<open>s.startsWith(p)\<close>, \<open>s.includes(sub)\<close> and \<open>xs.join(sep)\<close>.\<close>

definition startsWith :: "string \<Rightarrow> string \<Rightarrow> bool" where
  "startsWith s p = (take (length p) s = p)"

fun string_includes :: "string \<Rightarrow> string \<Rightarrow> bool" where
  "string_includes [] sub = (sub = [])"
| "string_includes (c # cs) sub = (startsWith (c # cs) sub \<or> string_includes cs sub)"

fun join :: "string \<Rightarrow> string list \<Rightarrow> string" where
  "join sep [] = []"
| "join sep [x] = x"
| "join sep (x # y # ys) = x @ sep @ join sep (y # ys)"

text \<open>
  \<open>encodeURIComponent\<close>: the unreserved characters (letters, digits and
  \<open>- _ . ! ~ * ' ( )\<close>) are kept; every other code unit is written as the bytes of its
  UTF-8 encoding, each byte as \<open>%\<close> and two upper-case hexadecimal digits. A code unit
  below U+0080 is one byte, one from U+0080 to U+00FF is two.
\<close>

definition uriUnreserved :: string where
  "uriUnreserved = ''ABCDEFGHIJKLMNOPQRSTUVWXYZabcdefghijklmnopqrstuvwxyz0123456789-_.!~*'()''"

definition hexDigit :: "nat \<Rightarrow> char" where
  "hexDigit n = ''0123456789ABCDEF'' ! (n mod 16)"

definition percentByte :: "nat \<Rightarrow> string" where
  "percentByte b = [CHR ''%'', hexDigit (b div 16), hexDigit (b mod 16)]"

definition encodeURIComponent_char :: "char \<Rightarrow> string" where
  "encodeURIComponent_char c =
     (let n = (of_char c :: nat)
      in if c \<in> set uriUnreserved then [c]
         else if n < 128 then percentByte n
         else percentByte (192 + n div 64) @ percentByte (128 + n mod 64))"

definition encodeURIComponent :: "string \<Rightarrow> string" where
  "encodeURIComponent s = concat (map encodeURIComponent_char s)"

text \<open>
  \<open>new Date(t).toUTCString()\<close> for a time value \<open>t\<close> in milliseconds since the epoch:
  \<open>Www, DD Mmm YYYY HH:MM:SS GMT\<close>, and \<open>Invalid Date\<close> when \<open>t\<close> is outside the range
  of \<open>TimeClip\<close> (8.64e15 ms either side of the epoch). The calendar date is computed
  from the day number with 400-year eras that start on 1 March.
\<close>

definition decDigit :: "int \<Rightarrow> char" where
  "decDigit n = ''0123456789'' ! nat (n mod 10)"

definition pad2 :: "int \<Rightarrow> string" where
  "pad2 n = [decDigit (n div 10), decDigit n]"

definition pad4 :: "int \<Rightarrow> string" where
  "pad4 n = [decDigit (n div 1000), decDigit (n div 100), decDigit (n div 10), decDigit n]"

definition padYear :: "int \<Rightarrow> string" where
  "padYear y =
     (let a = \<bar>y\<bar>;
          digits = (if a < 10000 then pad4 a
                    else if a < 100000 then decDigit (a div 10000) # pad4 a
                    else decDigit (a div 100000) # decDigit (a div 10000) # pad4 a)
      in if y \<ge> 0 then digits else CHR ''-'' # digits)"

definition civilFromDays :: "int \<Rightarrow> int \<times> int \<times> int" where
  "civilFromDays d =
     (let z = d + 719468;
          era = z div 146097;
          doe = z - era * 146097;
          yoe = (doe - doe div 1460 + doe div 36524 - doe div 146096) div 365;
          doy = doe - (365 * yoe + yoe div 4 - yoe div 100);
          mp = (5 * doy + 2) div 153;
          dd = doy - (153 * mp + 2) div 5 + 1;
          mm = (if mp < 10 then mp + 3 else mp - 9);
          yy = yoe + era * 400 + (if mm \<le> 2 then 1 else 0)
      in (yy, mm, dd))"

definition weekDayName :: "int \<Rightarrow> string" where
  "weekDayName d =
     [''Sun'', ''Mon'', ''Tue'', ''Wed'', ''Thu'', ''Fri'', ''Sat''] ! nat ((d + 4) mod 7)"

definition monthName :: "int \<Rightarrow> string" where
  "monthName m =
     [''Jan'', ''Feb'', ''Mar'', ''Apr'', ''May'', ''Jun'',
      ''Jul'', ''Aug'', ''Sep'', ''Oct'', ''Nov'', ''Dec''] ! nat (m - 1)"

definition toUTCString :: "int \<Rightarrow> string" where
  "toUTCString t =
     (if t < - 8640000000000000 \<or> 8640000000000000 < t then ''Invalid Date''
      else
        let d = t div 86400000;
            ms = t mod 86400000;
            (yy, mm, dd) = civilFromDays d
        in weekDayName d @ '', '' @ pad2 dd @ '' '' @ monthName mm @ '' '' @ padYear yy @ '' ''
           @ pad2 (ms div 3600000) @ '':'' @ pad2 (ms div 60000 mod 60) @ '':''
           @ pad2 (ms div 1000 mod 60) @ '' GMT'')"

section \<open>The cookie module (\<open>utils/cookie.ts\<close>)\<close>

datatype SameSite = Strict | Lax | NoneSite

definition sameSite_text :: "SameSite \<Rightarrow> string" where
  "sameSite_text x = (case x of Strict \<Rightarrow> ''Strict'' | Lax \<Rightarrow> ''Lax'' | NoneSite \<Rightarrow> ''None'')"

text \<open>\<open>interface CookieOptions\<close>: the optional members are \<^const>\<open>None\<close> when \<open>undefined\<close>.\<close>

record CookieOptions =
  days :: int
  domain :: "string option"
  path :: "string option"
  secure :: "bool option"
  sameSite :: "SameSite option"

text \<open>
  \<open>Partial<CookieOptions>\<close>, the argument of \<open>setCookie\<close> and \<open>removeCookie\<close>: each member
  is either missing from the object (\<^const>\<open>None\<close>) or present with its value; a present
  optional member may hold \<open>undefined\<close>.
\<close>

record PartialCookieOptions =
  days_given :: "int option"
  domain_given :: "string option option"
  path_given :: "string option option"
  secure_given :: "bool option option"
  sameSite_given :: "SameSite option option"

definition no_options :: PartialCookieOptions where
  "no_options = \<lparr>days_given = None, domain_given = None, path_given = None,
                  secure_given = None, sameSite_given = None\<rparr>"

definition DEFAULT_OPTIONS :: CookieOptions where
  "DEFAULT_OPTIONS = \<lparr>days = 30, domain = None, path = Some ''/'',
                       secure = Some True, sameSite = Some Lax\<rparr>"

text \<open>The object spread \<open>{ ...base, ...options }\<close>: a member present in \<open>options\<close> wins,
  also when it holds \<open>undefined\<close>.\<close>

definition spread :: "CookieOptions \<Rightarrow> PartialCookieOptions \<Rightarrow> CookieOptions" where
  "spread base options =
     \<lparr>days = (case days_given options of None \<Rightarrow> days base | Some d \<Rightarrow> d),
      domain = (case domain_given options of None \<Rightarrow> domain base | Some d \<Rightarrow> d),
      path = (case path_given options of None \<Rightarrow> path base | Some p \<Rightarrow> p),
      secure = (case secure_given options of None \<Rightarrow> secure base | Some b \<Rightarrow> b),
      sameSite = (case sameSite_given options of None \<Rightarrow> sameSite base | Some x \<Rightarrow> x)\<rparr>"

record StoredCookie =
  cookie_value :: string
  options :: CookieOptions

datatype error = Error string

text \<open>
  What the module reads and writes: the \<open>memoryStorage\<close> map, the host's
  \<open>document.cookie\<close> (\<^const>\<open>None\<close> when \<open>typeof document\<close> is \<open>"undefined"\<close>, otherwise
  the strings assigned to it, oldest first), the clock \<open>Date.now()\<close> in milliseconds, and
  the calls of \<open>console.error\<close> with their two arguments, oldest first.
\<close>

record world =
  memoryStorage :: "(string, StoredCookie) fmap"
  document_cookie :: "string list option"
  now :: int
  console :: "(string \<times> error) list"

definition console_error :: "string \<Rightarrow> error \<Rightarrow> world \<Rightarrow> world" where
  "console_error message e w = w\<lparr>console := console w @ [(message, e)]\<rparr>"

definition generateCookieString :: "string \<Rightarrow> string \<Rightarrow> CookieOptions \<Rightarrow> world \<Rightarrow> string" where
  "generateCookieString name val opts w =
     (let expires = now w + days opts * 24 * 60 * 60 * 1000;
          cookieString = encodeURIComponent name @ ''='' @ encodeURIComponent val
             @ ''; expires='' @ toUTCString expires
             @ ''; path='' @ (case path opts of None \<Rightarrow> ''undefined'' | Some p \<Rightarrow> p);
          cookieString = (case domain opts of
                            None \<Rightarrow> cookieString
                          | Some d \<Rightarrow> if d \<noteq> [] then cookieString @ ''; domain='' @ d
                                     else cookieString);
          cookieString = (case sameSite opts of
                            None \<Rightarrow> cookieString
                          | Some x \<Rightarrow> cookieString @ ''; samesite='' @ sameSite_text x);
          cookieString = (if secure opts = Some True then cookieString @ ''; secure''
                          else cookieString)
      in cookieString)"

definition assign_document_cookie :: "string \<Rightarrow> world \<Rightarrow> world" where
  "assign_document_cookie cookieString w =
     (case document_cookie w of
        None \<Rightarrow> w
      | Some assigned \<Rightarrow> w\<lparr>document_cookie := Some (assigned @ [cookieString])\<rparr>)"

definition setCookie :: "string \<Rightarrow> string \<Rightarrow> PartialCookieOptions \<Rightarrow> world \<Rightarrow> world" where
  "setCookie name val opts_given w =
     (let opts = spread DEFAULT_OPTIONS opts_given;
          cookieString = generateCookieString name val opts w;
          w = w\<lparr>memoryStorage :=
                   fmupd name \<lparr>cookie_value = val, options = opts\<rparr> (memoryStorage w)\<rparr>
      in assign_document_cookie cookieString w)"

definition getCookie :: "string \<Rightarrow> world \<Rightarrow> string option" where
  "getCookie name w =
     (case fmlookup (memoryStorage w) name of
        None \<Rightarrow> None
      | Some stored \<Rightarrow> Some (cookie_value stored))"





text \<open>
  \<open>getAllCookies\<close> copies every entry of \<open>memoryStorage\<close> into a fresh object by
  \<open>acc[name] = stored.value\<close>. On a plain object the assignment of a string to the member
  \<open>__proto__\<close> creates no property, so that name is not among the result's keys.
\<close>

definition getAllCookies :: "world \<Rightarrow> (string, string) fmap" where
  "getAllCookies w = fmdrop ''__proto__'' (fmmap cookie_value (memoryStorage w))"

section \<open>The attribution engine (\<open>utm.ts\<close>)\<close>

datatype AttributionStrategy = First | Last | Dynamic

text \<open>A call of the attribution callback either returns a string or throws.\<close>

datatype callback_result = Returns string | Throws error

type_synonym attribution_callback = "string \<Rightarrow> string \<Rightarrow> callback_result"

text \<open>\<open>interface UTMConfig\<close>. The module variable \<open>currentConfig\<close> is an argument of
  every function that reads it.\<close>

record UTMConfig =
  attribution :: AttributionStrategy
  expirationDays :: int
  config_domain :: "string option"
  config_path :: "string option"
  config_secure :: "bool option"
  config_sameSite :: "SameSite option"
  attributionCallback :: "attribution_callback option"

definition DEFAULT_CONFIG :: UTMConfig where
  "DEFAULT_CONFIG = \<lparr>attribution = Last, expirationDays = 30, config_domain = None,
                      config_path = Some ''/'', config_secure = Some True,
                      config_sameSite = Some Lax, attributionCallback = None\<rparr>"

definition UTM_PREFIX :: string where
  "UTM_PREFIX = ''utm_''"

definition VALID_UTM_PARAMS :: "string list" where
  "VALID_UTM_PARAMS = [''utm_source'', ''utm_medium'', ''utm_campaign'', ''utm_term'', ''utm_content'']"

definition isValidUTMParam :: "string \<Rightarrow> bool" where
  "isValidUTMParam param = (toLowerCase param \<in> set VALID_UTM_PARAMS)"

text \<open>\<open>currentValue || ""\<close>.\<close>

definition or_empty :: "string option \<Rightarrow> string" where
  "or_empty currentValue = (case currentValue of None \<Rightarrow> [] | Some c \<Rightarrow> c)"

text \<open>\<open>shouldSaveUTM\<close> returns its decision and the world, which differs from the one it
  was given only by the report of a callback that threw.\<close>

definition shouldSaveUTM :: "UTMConfig \<Rightarrow> string \<Rightarrow> string \<Rightarrow> world \<Rightarrow> bool \<times> world" where
  "shouldSaveUTM currentConfig key val w =
     (let currentValue = getCookie key w
      in case attribution currentConfig of
           First \<Rightarrow> (currentValue = None, w)
         | Last \<Rightarrow> (True, w)
         | Dynamic \<Rightarrow>
             (case attributionCallback currentConfig of
                None \<Rightarrow> (True, w)
              | Some callback \<Rightarrow>
                  (case callback (or_empty currentValue) val of
                     Returns shouldSave \<Rightarrow> (shouldSave = val, w)
                   | Throws e \<Rightarrow> (False, console_error ''Error in attribution callback:'' e w))))"

definition prefix_error :: "string \<Rightarrow> error" where
  "prefix_error key =
     Error (''Invalid UTM parameter: '' @ key @ ''. UTM parameters must start with ''
            @ [CHR 0x27] @ ''utm_'' @ [CHR 0x27])"

definition whitelist_error :: "string \<Rightarrow> error" where
  "whitelist_error key =
     Error (''Invalid UTM parameter: '' @ key @ ''. Must be one of: ''
            @ join '', '' VALID_UTM_PARAMS)"

text \<open>The object \<open>cookieOptions\<close> that \<open>saveUTM\<close> builds: all five members are present,
  each with the configuration's value.\<close>

definition cookieOptions :: "UTMConfig \<Rightarrow> PartialCookieOptions" where
  "cookieOptions currentConfig =
     \<lparr>days_given = Some (expirationDays currentConfig),
      domain_given = Some (config_domain currentConfig),
      path_given = Some (config_path currentConfig),
      secure_given = Some (config_secure currentConfig),
      sameSite_given = Some (config_sameSite currentConfig)\<rparr>"

definition saveUTM :: "UTMConfig \<Rightarrow> string \<Rightarrow> string \<Rightarrow> world \<Rightarrow> error + world" where
  "saveUTM currentConfig key val w =
     (if \<not> startsWith key UTM_PREFIX then Inl (prefix_error key)
      else if \<not> isValidUTMParam key then Inl (whitelist_error key)
      else
        let (save, w) = shouldSaveUTM currentConfig key val w
        in if save then Inr (setCookie key val (cookieOptions currentConfig) w)
           else Inr w)"

definition getUTM :: "string \<Rightarrow> world \<Rightarrow> error + string option" where
  "getUTM key w =
     (if \<not> startsWith key UTM_PREFIX then Inl (prefix_error key)
      else if \<not> isValidUTMParam key then Inl (whitelist_error key)
      else Inr (getCookie key w))"

text \<open>\<open>getUTMs\<close> keeps the entries of \<open>getAllCookies()\<close> whose key passes both tests, under
  the same key.\<close>

definition getUTMs :: "world \<Rightarrow> (string, string) fmap" where
  "getUTMs w =
     (let allCookies = getAllCookies w
      in fmfilter (\<lambda>key. startsWith key UTM_PREFIX \<and> isValidUTMParam key) allCookies)"

text \<open>
  \<open>Array.prototype.forEach\<close> over a body that may throw: the first exception ends the
  loop and is the result. \<open>try_catch\<close> is \<open>try { body } catch (error) { handler }\<close>.
\<close>

fun forEach :: "('a \<Rightarrow> world \<Rightarrow> error + world) \<Rightarrow> 'a list \<Rightarrow> world \<Rightarrow> error + world" where
  "forEach body [] w = Inr w"
| "forEach body (x # xs) w =
     (case body x w of Inl e \<Rightarrow> Inl e | Inr w' \<Rightarrow> forEach body xs w')"

definition try_catch :: "error + world \<Rightarrow> (error \<Rightarrow> error + world) \<Rightarrow> error + world" where
  "try_catch body handler = (case body of Inl e \<Rightarrow> handler e | Inr w \<Rightarrow> Inr w)"

text \<open>\<open>saveUTMs\<close> takes \<open>Object.entries(params)\<close>, the key/value pairs of its argument in
  property order.\<close>

definition saveUTMs :: "UTMConfig \<Rightarrow> (string \<times> string) list \<Rightarrow> world \<Rightarrow> error + world" where
  "saveUTMs currentConfig params w =
     forEach (\<lambda>(key, val) w.
        try_catch (saveUTM currentConfig key val w)
          (\<lambda>e. Inr (console_error (''Error saving UTM parameter '' @ key @ '':'') e w)))
       params w"

section \<open>The package entry module (\<open>index.ts\<close>)\<close>



definition validParams :: "string list" where
  "validParams = [''utm_source'', ''utm_medium'', ''utm_campaign'', ''utm_term'', ''utm_content'']"






definition index_getUTMs :: "world \<Rightarrow> (string, string) fmap" where
  "index_getUTMs w =
     (let allCookies = getAllCookies w
      in fmfilter (\<lambda>key. startsWith key ''utm_'') allCookies)"

section \<open>Worlds and callbacks used in the examples\<close>

text \<open>The world when the modules are loaded: \<open>memoryStorage\<close> is \<open>new Map()\<close> and nothing
  has been logged or assigned.\<close>

definition initial_world :: "bool \<Rightarrow> int \<Rightarrow> world" where
  "initial_world has_document t =
     \<lparr>memoryStorage = fmempty,
      document_cookie = (if has_document then Some [] else None),
      now = t, console = []\<rparr>"


section \<open>Notions used in the statements\<close>

text \<open>A key is accepted when it passes the two tests that \<open>saveUTM\<close>, \<open>getUTM\<close> and \<open>getUTMs\<close>
  make; \<open>key_error\<close> is the exception \<open>saveUTM\<close> and \<open>getUTM\<close> throw for a key that is not.
  Two worlds hold the same cookies when they differ at most in what was logged.\<close>

definition accepted_key :: "string \<Rightarrow> bool" where
  "accepted_key key = (startsWith key UTM_PREFIX \<and> isValidUTMParam key)"


definition same_cookies :: "world \<Rightarrow> world \<Rightarrow> bool" where
  "same_cookies w u =
     (memoryStorage w = memoryStorage u \<and> document_cookie w = document_cookie u \<and> now w = now u)"


section \<open>Facts about the cookie module\<close>

lemma memoryStorage_assign_document_cookie [simp]:
  "memoryStorage (assign_document_cookie c w) = memoryStorage w"
  by (simp add: assign_document_cookie_def split: option.split)

lemma console_assign_document_cookie [simp]:
  "console (assign_document_cookie c w) = console w"
  by (simp add: assign_document_cookie_def split: option.split)

lemma now_assign_document_cookie [simp]:
  "now (assign_document_cookie c w) = now w"
  by (simp add: assign_document_cookie_def split: option.split)

lemma memoryStorage_setCookie:
  "memoryStorage (setCookie name val opts w) =
     fmupd name \<lparr>cookie_value = val, options = spread DEFAULT_OPTIONS opts\<rparr> (memoryStorage w)"
  by (simp add: setCookie_def Let_def)


lemma getCookie_setCookie:
  "getCookie k (setCookie name val opts w) = (if k = name then Some val else getCookie k w)"
  by (simp add: getCookie_def memoryStorage_setCookie)


lemma getCookie_clock [simp]: "getCookie k (w\<lparr>now := t\<rparr>) = getCookie k w"
  by (simp add: getCookie_def)

section \<open>C1: reading an entry after its expiry\<close>



section \<open>Facts about the attribution engine\<close>

lemma saveUTM_valid_key:
  assumes "startsWith key UTM_PREFIX" and "isValidUTMParam key"
  shows "saveUTM cfg key val w =
           (if fst (shouldSaveUTM cfg key val w)
            then Inr (setCookie key val (cookieOptions cfg) (snd (shouldSaveUTM cfg key val w)))
            else Inr (snd (shouldSaveUTM cfg key val w)))"
  using assms by (simp add: saveUTM_def split_beta Let_def)

lemma getUTM_valid_key:
  assumes "startsWith key UTM_PREFIX" and "isValidUTMParam key"
  shows "getUTM key w = Inr (getCookie key w)"
  using assms by (simp add: getUTM_def)

lemma shouldSaveUTM_Dynamic_callback:
  assumes "attribution cfg = Dynamic" and "attributionCallback cfg = Some callback"
  shows "shouldSaveUTM cfg key val w =
           (case callback (or_empty (getCookie key w)) val of
              Returns r \<Rightarrow> (r = val, w)
            | Throws e \<Rightarrow> (False, console_error ''Error in attribution callback:'' e w))"
  using assms by (simp add: shouldSaveUTM_def)



lemma shouldSaveUTM_First:
  assumes "attribution cfg = First"
  shows "shouldSaveUTM cfg key val w = (getCookie key w = None, w)"
  using assms by (simp add: shouldSaveUTM_def)

lemma cookieOptions_attribution [simp]:
  "cookieOptions (cfg\<lparr>attribution := a\<rparr>) = cookieOptions cfg"
  by (simp add: cookieOptions_def)

lemma memoryStorage_console_error [simp]:
  "memoryStorage (console_error m e w) = memoryStorage w"
  by (simp add: console_error_def)

lemma document_cookie_console_error [simp]:
  "document_cookie (console_error m e w) = document_cookie w"
  by (simp add: console_error_def)

lemma getCookie_console_error [simp]:
  "getCookie k (console_error m e w) = getCookie k w"
  by (simp add: getCookie_def)


lemma includes_facebook: "\<not> string_includes ''facebook'' ''google''"
  by (simp add: startsWith_def)




lemma utm_source_prefix: "startsWith ''utm_source'' UTM_PREFIX"
  by (simp add: startsWith_def UTM_PREFIX_def)

lemma utm_source_valid: "isValidUTMParam ''utm_source''"
  by (simp add: isValidUTMParam_def VALID_UTM_PARAMS_def toLowerCase_def toLowerCase_char_def
      upperCaseLetters_def lowerCaseLetters_def)

section \<open>C2: the Dynamic strategy with a callback\<close>



section \<open>C3: the First strategy\<close>

text \<open>
  C3: under the strategy First, for a key that passes validation, \<open>saveUTM\<close> writes
  exactly when \<open>getCookie\<close> returns \<open>null\<close> for the key, and otherwise returns normally with
  the world untouched; a stored empty string is a prior value. So from a world with no
  value for the key, saving \<open>a\<close> and then \<open>b\<close> leaves \<open>a\<close>.
\<close>

theorem C3_first_touch_keeps_first_value:
  assumes "attribution cfg = First" and "startsWith key UTM_PREFIX" and "isValidUTMParam key"
  shows "saveUTM cfg key val w =
           Inr (if getCookie key w = None then setCookie key val (cookieOptions cfg) w else w)
       \<and> (getCookie key w = Some [] \<longrightarrow> saveUTM cfg key val w = Inr w)
       \<and> (getCookie key w = None \<longrightarrow>
            (\<exists>w1 w2. saveUTM cfg key a w = Inr w1 \<and> saveUTM cfg key b w1 = Inr w2
                   \<and> getUTM key w2 = Inr (Some a)))"
proof -
  have save: "saveUTM cfg key v u =
                Inr (if getCookie key u = None then setCookie key v (cookieOptions cfg) u else u)"
    for v u
    using assms by (simp add: saveUTM_valid_key shouldSaveUTM_First)
  have "\<exists>w1 w2. saveUTM cfg key a w = Inr w1 \<and> saveUTM cfg key b w1 = Inr w2
               \<and> getUTM key w2 = Inr (Some a)"
    if "getCookie key w = None"
    using that assms(2,3) by (simp add: save getCookie_setCookie getUTM_valid_key)
  then show ?thesis
    by (simp add: save)
qed

text \<open>
  C3, at a concrete input: the key \<open>utm_source\<close>, the values \<open>a\<close> and \<open>b\<close>, the world at
  load time.
\<close>

theorem C3_witness:
  "attribution (DEFAULT_CONFIG\<lparr>attribution := First\<rparr>) = First
   \<and> startsWith ''utm_source'' UTM_PREFIX \<and> isValidUTMParam ''utm_source''
   \<and> getCookie ''utm_source'' (initial_world True 0) = None
   \<and> (\<exists>w1 w2. saveUTM (DEFAULT_CONFIG\<lparr>attribution := First\<rparr>) ''utm_source'' ''a''
                  (initial_world True 0) = Inr w1
            \<and> saveUTM (DEFAULT_CONFIG\<lparr>attribution := First\<rparr>) ''utm_source'' ''b'' w1 = Inr w2
            \<and> getUTM ''utm_source'' w2 = Inr (Some ''a''))
   \<and> getCookie ''utm_source'' (setCookie ''utm_source'' [] no_options (initial_world True 0))
       = Some []
   \<and> saveUTM (DEFAULT_CONFIG\<lparr>attribution := First\<rparr>) ''utm_source'' ''b''
        (setCookie ''utm_source'' [] no_options (initial_world True 0))
       = Inr (setCookie ''utm_source'' [] no_options (initial_world True 0))"
proof -
  let ?cfg = "DEFAULT_CONFIG\<lparr>attribution := First\<rparr>"
  let ?empty = "setCookie ''utm_source'' [] no_options (initial_world True 0)"
  have a: "attribution ?cfg = First" by simp
  have cur: "getCookie ''utm_source'' (initial_world True 0) = None"
    by (simp add: getCookie_def initial_world_def)
  have stored: "getCookie ''utm_source'' ?empty = Some []"
    by (simp add: getCookie_setCookie)
  from C3_first_touch_keeps_first_value [OF a utm_source_prefix utm_source_valid,
        where w = "initial_world True 0" and a = "''a''" and b = "''b''"] cur
  have 1: "\<exists>w1 w2. saveUTM ?cfg ''utm_source'' ''a'' (initial_world True 0) = Inr w1
            \<and> saveUTM ?cfg ''utm_source'' ''b'' w1 = Inr w2
            \<and> getUTM ''utm_source'' w2 = Inr (Some ''a'')"
    by blast
  from C3_first_touch_keeps_first_value [OF a utm_source_prefix utm_source_valid,
        where w = ?empty and val = "''b''"] stored
  have 2: "saveUTM ?cfg ''utm_source'' ''b'' ?empty = Inr ?empty"
    by blast
  from 1 2 a cur stored utm_source_prefix utm_source_valid show ?thesis
    by blast
qed

section \<open>C4: which keys are rejected\<close>




section \<open>C5: a callback that throws\<close>

text \<open>
  C5: under the Dynamic strategy, when the callback throws for a key that passes
  validation, \<open>saveUTM\<close> returns normally; the stored cookies and \<open>document.cookie\<close> are
  as before, and the only change is one more call of \<open>console.error\<close>, carrying the
  exception.
\<close>

theorem C5_throwing_callback_is_caught:
  assumes "attribution cfg = Dynamic" and "attributionCallback cfg = Some callback"
    and "callback (or_empty (getCookie key w)) val = Throws e"
    and "startsWith key UTM_PREFIX" and "isValidUTMParam key"
  shows "\<exists>w'. saveUTM cfg key val w = Inr w'
            \<and> memoryStorage w' = memoryStorage w
            \<and> document_cookie w' = document_cookie w
            \<and> getCookie key w' = getCookie key w
            \<and> console w' = console w @ [(''Error in attribution callback:'', e)]"
  using assms
  by (simp add: saveUTM_valid_key shouldSaveUTM_Dynamic_callback console_error_def getCookie_def)

text \<open>
  C5, at a concrete input: a callback that always throws, the key \<open>utm_source\<close>, the
  world at load time.
\<close>

theorem C5_witness:
  "attribution (DEFAULT_CONFIG\<lparr>attribution := Dynamic,
       attributionCallback := Some (\<lambda>current newValue. Throws (Error ''boom''))\<rparr>) = Dynamic
   \<and> startsWith ''utm_source'' UTM_PREFIX \<and> isValidUTMParam ''utm_source''
   \<and> (\<exists>w'. saveUTM (DEFAULT_CONFIG\<lparr>attribution := Dynamic,
                 attributionCallback := Some (\<lambda>current newValue. Throws (Error ''boom''))\<rparr>)
               ''utm_source'' ''google'' (initial_world True 0) = Inr w'
          \<and> memoryStorage w' = fmempty
          \<and> document_cookie w' = Some []
          \<and> getCookie ''utm_source'' w' = None
          \<and> console w' = [(''Error in attribution callback:'', Error ''boom'')])"
proof -
  let ?cb = "\<lambda>current newValue. Throws (Error ''boom'')"
  let ?cfg = "DEFAULT_CONFIG\<lparr>attribution := Dynamic, attributionCallback := Some ?cb\<rparr>"
  have a: "attribution ?cfg = Dynamic" by simp
  have b: "attributionCallback ?cfg = Some ?cb" by simp
  have c: "?cb (or_empty (getCookie ''utm_source'' (initial_world True 0))) ''google''
             = Throws (Error ''boom'')" by simp
  have cur: "getCookie ''utm_source'' (initial_world True 0) = None"
    by (simp add: getCookie_def initial_world_def)
  from C5_throwing_callback_is_caught
         [where cfg = ?cfg and callback = ?cb and key = "''utm_source''" and val = "''google''"
            and w = "initial_world True 0" and e = "Error ''boom''",
          OF a b c utm_source_prefix utm_source_valid]
  obtain w' where
    "saveUTM ?cfg ''utm_source'' ''google'' (initial_world True 0) = Inr w'"
    "memoryStorage w' = memoryStorage (initial_world True 0)"
    "document_cookie w' = document_cookie (initial_world True 0)"
    "getCookie ''utm_source'' w' = getCookie ''utm_source'' (initial_world True 0)"
    "console w' = console (initial_world True 0) @ [(''Error in attribution callback:'', Error ''boom'')]"
    by blast
  then have "saveUTM ?cfg ''utm_source'' ''google'' (initial_world True 0) = Inr w'
      \<and> memoryStorage w' = fmempty \<and> document_cookie w' = Some []
      \<and> getCookie ''utm_source'' w' = None
      \<and> console w' = [(''Error in attribution callback:'', Error ''boom'')]"
    using cur by (simp add: initial_world_def)
  then show ?thesis
    using a utm_source_prefix utm_source_valid by blast
qed

section \<open>Facts about the batch save and the listing\<close>

lemma saveUTMs_Nil [simp]: "saveUTMs cfg [] w = Inr w"
  by (simp add: saveUTMs_def)







text \<open>What one accepted save does to the world.\<close>

lemma shouldSaveUTM_snd:
  "snd (shouldSaveUTM cfg key val w) = w \<or>
   (\<exists>e. snd (shouldSaveUTM cfg key val w) = console_error ''Error in attribution callback:'' e w)"
  by (auto simp add: shouldSaveUTM_def Let_def
      split: AttributionStrategy.split option.split callback_result.split)

lemma same_cookies_refl [simp]: "same_cookies w w"
  by (simp add: same_cookies_def)

lemma same_cookies_console_error [simp]:
  "same_cookies (console_error m e w) u = same_cookies w u"
  "same_cookies w (console_error m e u) = same_cookies w u"
  by (simp_all add: same_cookies_def console_error_def)





lemma generateCookieString_same_cookies:
  "same_cookies w u \<Longrightarrow> generateCookieString n v opts w = generateCookieString n v opts u"
  by (simp add: same_cookies_def generateCookieString_def)






lemma console_setCookie [simp]: "console (setCookie n v opts w) = console w"
  by (simp add: setCookie_def Let_def)



lemma memoryStorage_shouldSaveUTM [simp]:
  "memoryStorage (snd (shouldSaveUTM cfg key val w)) = memoryStorage w"
  using shouldSaveUTM_snd [of cfg key val w] by auto

lemma getCookie_shouldSaveUTM [simp]:
  "getCookie k (snd (shouldSaveUTM cfg key val w)) = getCookie k w"
  by (simp add: getCookie_def)



lemma accepted_key_not_proto: "accepted_key key \<Longrightarrow> key \<noteq> ''__proto__''"
  by (auto simp add: accepted_key_def startsWith_def UTM_PREFIX_def)

lemma fmlookup_getAllCookies:
  "fmlookup (getAllCookies w) key = (if key = ''__proto__'' then None else getCookie key w)"
  by (simp add: getAllCookies_def getCookie_def split: option.split)

lemma fmlookup_getUTMs:
  "fmlookup (getUTMs w) key = (if accepted_key key then getCookie key w else None)"
  using accepted_key_not_proto [of key]
  by (auto simp add: getUTMs_def Let_def fmlookup_getAllCookies accepted_key_def)

lemma fmlookup_index_getUTMs:
  "fmlookup (index_getUTMs w) key = (if startsWith key ''utm_'' then getCookie key w else None)"
  by (auto simp add: index_getUTMs_def Let_def fmlookup_getAllCookies startsWith_def)

lemma accepted_key_iff:
  "accepted_key key = (startsWith key ''utm_'' \<and> toLowerCase key \<in> set VALID_UTM_PARAMS)"
  by (simp add: accepted_key_def UTM_PREFIX_def isValidUTMParam_def)

lemma getCookie_initial_world [simp]: "getCookie k (initial_world d t) = None"
  by (simp add: getCookie_def initial_world_def)





section \<open>C6: the batch save\<close>



section \<open>C7: the listing of stored parameters\<close>

text \<open>
  C7, as stated, fails. \<open>saveUTM\<close> accepts the key \<open>utm_SOURCE\<close> and stores the value under
  it; \<open>getUTMs\<close> then returns the entry under \<open>utm_SOURCE\<close>, a key that is not in lower
  case and is not a member of the whitelist as written, and it has no entry \<open>utm_source\<close>.
\<close>

theorem C7_stored_key_not_lower_cased:
  "saveUTM DEFAULT_CONFIG ''utm_SOURCE'' ''google'' (initial_world True 0)
     = Inr (setCookie ''utm_SOURCE'' ''google'' (cookieOptions DEFAULT_CONFIG) (initial_world True 0))
   \<and> fmlookup (getUTMs (setCookie ''utm_SOURCE'' ''google'' (cookieOptions DEFAULT_CONFIG)
                          (initial_world True 0))) ''utm_SOURCE'' = Some ''google''
   \<and> fmlookup (getUTMs (setCookie ''utm_SOURCE'' ''google'' (cookieOptions DEFAULT_CONFIG)
                          (initial_world True 0))) ''utm_source'' = None
   \<and> toLowerCase ''utm_SOURCE'' \<noteq> ''utm_SOURCE''
   \<and> ''utm_SOURCE'' \<notin> set VALID_UTM_PARAMS"
  by code_simp

text \<open>
  C7, amended: for every world, \<open>getUTMs\<close> returns exactly the stored entries whose key
  starts with \<open>utm_\<close> as written and whose lower-cased key is whitelisted, each under its
  key as stored and with its stored value; whatever else the store holds is left out.
\<close>

theorem C7_getUTMs_returns_stored_keys_as_stored:
  "fmlookup (getUTMs w) key =
     (if startsWith key ''utm_'' \<and> toLowerCase key \<in> set VALID_UTM_PARAMS
      then getCookie key w else None)"
  by (simp add: fmlookup_getUTMs accepted_key_iff)

text \<open>
  The \<open>getUTMs\<close> of \<open>index.ts\<close> tests the prefix only: it returns every stored entry whose
  key starts with \<open>utm_\<close>, also one outside the whitelist that another caller of
  \<open>setCookie\<close> stored.
\<close>

lemma index_getUTMs_tests_prefix_only:
  "fmlookup (index_getUTMs w) key = (if startsWith key ''utm_'' then getCookie key w else None)"
  by (rule fmlookup_index_getUTMs)

lemma index_getUTMs_returns_key_outside_whitelist:
  "fmlookup (index_getUTMs (setCookie ''utm_bogus'' ''x'' no_options (initial_world True 0)))
     ''utm_bogus'' = Some ''x''
   \<and> toLowerCase ''utm_bogus'' \<notin> set validParams
   \<and> fmlookup (getUTMs (setCookie ''utm_bogus'' ''x'' no_options (initial_world True 0)))
        ''utm_bogus'' = None"
  by code_simp

section \<open>C8: the expiry and the options of a write\<close>







section \<open>C9: the cookie string\<close>














section \<open>C10: the availability probe\<close>




end
